theory Spec2Isabelle
  imports Complex_Main "HOL-Library.Sublist"
begin

section \<open>Reference data\<close>

text \<open>
  The unit test \<^verbatim>\<open>unittest/force-styles/angle_style.cpp\<close> compares what a LAMMPS
  instance computes for an angle style with the reference values of a YAML file.
  C++ \<^verbatim>\<open>double\<close> values are modelled as real numbers: every statement below is about
  the exact comparison, not about rounding.

  \<^verbatim>\<open>coord_t\<close>, \<^verbatim>\<open>stress_t\<close> and \<^verbatim>\<open>TestConfig\<close> are declared in
  \<^verbatim>\<open>test_config.h\<close>; the records below hold the members that
  \<^verbatim>\<open>angle_style.cpp\<close> reads. The members \<^verbatim>\<open>x\<close>, \<^verbatim>\<open>y\<close>, \<^verbatim>\<open>z\<close> of
  \<^verbatim>\<open>coord_t\<close> carry the prefix \<open>coord_\<close> so that they do not capture variables.
\<close>

record coord_t =
  coord_x :: real
  coord_y :: real
  coord_z :: real

record stress_t =
  xx :: real
  yy :: real
  zz :: real
  xy :: real
  xz :: real
  yz :: real

record TestConfig =
  basename :: string
  prerequisites :: "(string \<times> string) list"
  epsilon :: real
  pre_commands :: "string list"
  post_commands :: "string list"
  input_file :: string
  angle_style :: string
  angle_coeff :: "string list"
  init_energy :: real
  run_energy :: real
  init_stress :: stress_t
  run_stress :: stress_t
  init_forces :: "coord_t list"
  run_forces :: "coord_t list"

section \<open>The engine as the test sees it\<close>

text \<open>
  The simulation engine is external. The test drives it with text commands and reads
  members of the instance afterwards. The commands are recorded as a trace of
  \<open>action\<close>s; what the test reads back is a parameter of the model, the record
  \<open>LAMMPS\<close>: one \<open>snapshot\<close> for each point where the test reads the instance.
  Pointers into the engine (\<^verbatim>\<open>f\<close>, \<^verbatim>\<open>tag\<close>, \<^verbatim>\<open>angle->virial\<close>) are functions of
  the index; they denote the memory as it is when the test reads it. The test
  dereferences \<^verbatim>\<open>lmp->force->angle\<close> and \<^verbatim>\<open>lmp->modify->compute[id]\<close> without a
  check; the model takes these objects to exist whenever the test reads them.
  \<^verbatim>\<open>tag[i]\<close> is the id of an atom; the test uses it as an index of a
  \<^verbatim>\<open>std::vector\<close>, so it is a natural number here.
\<close>

datatype action =
  New_LAMMPS "string list"
| One string
| File string
| Remove string
| Delete_LAMMPS

datatype phase =
  Init_newton_on | Run_newton_on | Init_newton_off | Run_newton_off | Restart | Data

record snapshot =
  atom_natoms :: int
  atom_nlocal :: int
  atom_f :: "nat \<Rightarrow> nat \<Rightarrow> real"
  atom_tag :: "nat \<Rightarrow> nat"
  angle_virial :: "nat \<Rightarrow> real"
  angle_energy :: real
  compute_sum :: real

record LAMMPS =
  has_style :: "string \<Rightarrow> string \<Rightarrow> bool"
  is_installed_pkg :: "string \<Rightarrow> bool"
  suffix_enable :: bool
  suffix :: string
  init_output :: string
  restart_angle :: bool
  angle_writedata :: bool
  at_phase :: "phase \<Rightarrow> snapshot"

text \<open>
  \<open>restart_angle\<close> is \<^verbatim>\<open>lmp->force->angle != NULL\<close> right after
  \<^verbatim>\<open>read_restart\<close>; \<open>angle_writedata\<close> is \<^verbatim>\<open>lmp->force->angle->writedata\<close> where
  \<^verbatim>\<open>restart_lammps\<close> reads it. \<open>init_output\<close> is the standard output captured
  around the first \<^verbatim>\<open>init_lammps\<close> call.
\<close>

section \<open>The value comparison\<close>

text \<open>
  Modelled from the spec: the macro \<^verbatim>\<open>EXPECT_FP_LE_WITH_EPS(val1,val2,eps)\<close> is
  defined in \<^verbatim>\<open>test_main.h\<close>, which is not among the sources. The specification
  gives the comparison as
  \<^verbatim>\<open>|live - expected| <= tolerance * max(1, |expected|)\<close>.
\<close>

definition EXPECT_FP_LE_WITH_EPS :: "real \<Rightarrow> real \<Rightarrow> real \<Rightarrow> bool" where
  "EXPECT_FP_LE_WITH_EPS val1 val2 eps = (\<bar>val1 - val2\<bar> \<le> eps * max 1 \<bar>val2\<bar>)"

datatype quantity = Forces | Stress | Energy | Energy_sum

datatype fp_check =
  Fp_check (chk_phase: phase) (chk_quantity: quantity)
    (chk_val1: real) (chk_val2: real) (chk_eps: real)

definition accepted :: "fp_check \<Rightarrow> bool" where
  "accepted c = EXPECT_FP_LE_WITH_EPS (chk_val1 c) (chk_val2 c) (chk_eps c)"

text \<open>
  A \<^verbatim>\<open>ToleranceViolation\<close> is an expectation of the macro that does not hold. An
  expectation is not fatal: the test goes on and every violated one is reported.
\<close>

definition violations :: "fp_check list \<Rightarrow> fp_check list" where
  "violations cs = filter (\<lambda>c. \<not> accepted c) cs"

section \<open>The scenario driver\<close>

text \<open>
  Every driver function returns the trace of what it does to the engine and to the
  file system, in order. \<open>folder\<close> is the value of the build macro
  \<^verbatim>\<open>TEST_INPUT_FOLDER\<close>, \<open>args\<close> the command line of the instance.
\<close>

definition cleanup_lammps :: "TestConfig \<Rightarrow> action list" where
  "cleanup_lammps cfg =
     [Remove (basename cfg @ ''.restart''),
      Remove (basename cfg @ ''.data''),
      Remove (basename cfg @ ''-coeffs.in''),
      Delete_LAMMPS]"

text \<open>The name that \<^verbatim>\<open>init_lammps\<close> passes to \<^verbatim>\<open>Info::has_style\<close> for a prerequisite.\<close>

definition checked_style :: "LAMMPS \<Rightarrow> string \<times> string \<Rightarrow> string" where
  "checked_style lmp prerequisite =
     (let style = snd prerequisite in
      if fst prerequisite = ''angle''
      then (if suffix_enable lmp then style @ ''/'' @ suffix lmp else style)
      else style)"

text \<open>
  The loop over \<^verbatim>\<open>cfg.prerequisites\<close> that counts the missing styles. The counter
  \<^verbatim>\<open>nfail\<close> is a C \<^verbatim>\<open>int\<close> that is only incremented and compared with zero; it
  is a natural number here.
\<close>

definition count_nfail :: "LAMMPS \<Rightarrow> (string \<times> string) list \<Rightarrow> nat" where
  "count_nfail lmp ps =
     fold (\<lambda>prerequisite nfail.
             if \<not> has_style lmp (fst prerequisite) (checked_style lmp prerequisite)
             then nfail + 1 else nfail) ps 0"

text \<open>\<^verbatim>\<open>for (auto c : cmds) lmp->input->one(prefix + c)\<close>, appended to the trace.\<close>

definition one_each :: "string \<Rightarrow> string list \<Rightarrow> action list \<Rightarrow> action list" where
  "one_each pre cmds trace = fold (\<lambda>c l. l @ [One (pre @ c)]) cmds trace"

text \<open>
  \<^verbatim>\<open>init_lammps\<close>: the second component is \<open>False\<close> where the source returns
  \<^verbatim>\<open>NULL\<close>.
\<close>

definition init_lammps ::
  "string list \<Rightarrow> string \<Rightarrow> TestConfig \<Rightarrow> LAMMPS \<Rightarrow> bool \<Rightarrow> action list \<times> bool" where
  "init_lammps args folder cfg lmp newton =
     (let trace = [New_LAMMPS args];
          nfail = count_nfail lmp (prerequisites cfg)
      in if nfail > 0 then (trace @ cleanup_lammps cfg, False)
         else
           let trace = trace @ [One (if newton then ''variable newton_bond index on''
                                 else ''variable newton_bond index off'')];
               trace = trace @ [One (''variable input_dir index '' @ folder)];
               trace = one_each [] (pre_commands cfg) trace;
               trace = trace @ [File (folder @ ''/'' @ input_file cfg)];
               trace = trace @ [One (''angle_style '' @ angle_style cfg)];
               trace = one_each ''angle_coeff '' (angle_coeff cfg) trace;
               trace = one_each [] (post_commands cfg) trace;
               trace = trace @ [One ''run 0 post no''];
               trace = trace @ [One (''write_restart '' @ basename cfg @ ''.restart'')];
               trace = trace @ [One (''write_data '' @ basename cfg @ ''.data'')];
               trace = trace @ [One (''write_coeff '' @ basename cfg @ ''-coeffs.in'')]
           in (trace, True))"

definition run_lammps :: "action list" where
  "run_lammps =
     [One ''fix 1 all nve'',
      One ''compute pe all pe/atom'',
      One ''compute sum all reduce sum c_pe'',
      One ''thermo_style custom step temp pe press c_sum'',
      One ''thermo 2'',
      One ''run 4 post no'']"

definition restart_lammps :: "TestConfig \<Rightarrow> LAMMPS \<Rightarrow> action list" where
  "restart_lammps cfg lmp =
     (let trace = [One ''clear''];
          trace = trace @ [One (''read_restart '' @ basename cfg @ ''.restart'')];
          trace = (if \<not> restart_angle lmp
                 then trace @ [One (''angle_style '' @ angle_style cfg)] else trace);
          trace = (if take 6 (angle_style cfg) = ''hybrid'' \<or> \<not> angle_writedata lmp
                 then one_each ''angle_coeff '' (angle_coeff cfg) trace else trace);
          trace = one_each [] (post_commands cfg) trace
      in trace @ [One ''run 0 post no''])"

definition data_lammps :: "string \<Rightarrow> TestConfig \<Rightarrow> action list" where
  "data_lammps folder cfg =
     (let trace = [One ''clear'',
                 One ''variable angle_style delete'',
                 One ''variable data_file  delete'',
                 One ''variable newton_bond delete'',
                 One ''variable newton_bond index on''];
          trace = one_each [] (pre_commands cfg) trace;
          trace = trace @ [One (''variable angle_style index '' @ [CHR 0x27]
                            @ angle_style cfg @ [CHR 0x27])];
          trace = trace @ [One (''variable data_file index '' @ basename cfg @ ''.data'')];
          trace = trace @ [File (folder @ ''/'' @ input_file cfg)];
          trace = one_each ''angle_coeff '' (angle_coeff cfg) trace;
          trace = one_each [] (post_commands cfg) trace
      in trace @ [One ''run 0 post no''])"

section \<open>The test cases as sequences of steps\<close>

text \<open>
  A test body is a sequence of steps: a driver action, a non-fatal expectation on the
  captured output (\<^verbatim>\<open>EXPECT_THAT\<close>), a fatal assertion (\<^verbatim>\<open>ASSERT_EQ\<close>), a
  non-fatal value comparison (\<^verbatim>\<open>EXPECT_FP_LE_WITH_EPS\<close>), or a read that C++ leaves
  undefined (\<^verbatim>\<open>operator[]\<close> of a \<^verbatim>\<open>std::vector\<close> beyond its size, a member of a
  null instance). Every comparison carries the block it stands in (the phase and the
  quantity that the statistics line of the block prints) and the three arguments of
  the macro. The \<^verbatim>\<open>ErrorStats\<close> object only collects diagnostics and is left out.
\<close>

datatype assertion = Natoms_nlocal | Forces_size

datatype step =
  DO action
| EXPECT_THAT bool
| ASSERT_EQ assertion int int
| EXPECT_FP fp_check
| UNDEFINED

definition vec_at :: "'a list \<Rightarrow> nat \<Rightarrow> 'a option" where
  "vec_at v k = (if k < length v then Some (v ! k) else None)"

text \<open>\<^verbatim>\<open>EXPECT_FP_LE_WITH_EPS(f[i][d], f_ref[tag[i]].d, tol)\<close> for one component.\<close>

definition expect_force ::
  "phase \<Rightarrow> real \<Rightarrow> (coord_t \<Rightarrow> real) \<Rightarrow> coord_t list \<Rightarrow> nat \<Rightarrow> real \<Rightarrow> step" where
  "expect_force ph v d f_ref k tol =
     (case vec_at f_ref k of
        None \<Rightarrow> UNDEFINED
      | Some r \<Rightarrow> EXPECT_FP (Fp_check ph Forces v (d r) tol))"

text \<open>\<^verbatim>\<open>for (int i=0; i < nlocal; ++i)\<close> with its three comparisons.\<close>

definition forces_loop ::
  "phase \<Rightarrow> snapshot \<Rightarrow> coord_t list \<Rightarrow> int \<Rightarrow> real \<Rightarrow> step list" where
  "forces_loop ph s f_ref nlocal tol =
     concat (map (\<lambda>i. [expect_force ph (atom_f s i 0) coord_x f_ref (atom_tag s i) tol,
                        expect_force ph (atom_f s i 1) coord_y f_ref (atom_tag s i) tol,
                        expect_force ph (atom_f s i 2) coord_z f_ref (atom_tag s i) tol])
                 [0..<nat nlocal])"

definition stress_block :: "phase \<Rightarrow> snapshot \<Rightarrow> stress_t \<Rightarrow> real \<Rightarrow> step list" where
  "stress_block ph s ref tol =
     [EXPECT_FP (Fp_check ph Stress (angle_virial s 0) (xx ref) tol),
      EXPECT_FP (Fp_check ph Stress (angle_virial s 1) (yy ref) tol),
      EXPECT_FP (Fp_check ph Stress (angle_virial s 2) (zz ref) tol),
      EXPECT_FP (Fp_check ph Stress (angle_virial s 3) (xy ref) tol),
      EXPECT_FP (Fp_check ph Stress (angle_virial s 4) (xz ref) tol),
      EXPECT_FP (Fp_check ph Stress (angle_virial s 5) (yz ref) tol)]"

definition energy_check :: "phase \<Rightarrow> snapshot \<Rightarrow> real \<Rightarrow> real \<Rightarrow> step" where
  "energy_check ph s ref tol = EXPECT_FP (Fp_check ph Energy (angle_energy s) ref tol)"

text \<open>
  \<^verbatim>\<open>EXPECT_FP_LE_WITH_EPS(angle->energy, energy, epsilon)\<close> where \<^verbatim>\<open>energy\<close> is the
  scalar of the compute \<^verbatim>\<open>sum\<close>.
\<close>

definition sum_check :: "phase \<Rightarrow> snapshot \<Rightarrow> real \<Rightarrow> step" where
  "sum_check ph s tol =
     EXPECT_FP (Fp_check ph Energy_sum (angle_energy s) (compute_sum s) tol)"

text \<open>
  The second \<^verbatim>\<open>init_lammps\<close> call of a test, with \<^verbatim>\<open>newton\<close> off. Its result is
  used without a null check.
\<close>

definition init_again :: "string list \<Rightarrow> string \<Rightarrow> TestConfig \<Rightarrow> LAMMPS \<Rightarrow> step list" where
  "init_again args folder cfg lmp =
     (case init_lammps args folder cfg lmp False of
        (acts, ok) \<Rightarrow> map DO acts @ (if ok then [] else [UNDEFINED]))"

definition plain_args :: "string list" where
  "plain_args = [''AngleStyle'', ''-log'', ''none'', ''-echo'', ''screen'', ''-nocite'']"

definition omp_args :: "string list" where
  "omp_args = [''AngleStyle'', ''-log'', ''none'', ''-echo'', ''screen'', ''-nocite'',
               ''-pk'', ''omp'', ''4'', ''-sf'', ''omp'']"

text \<open>The body of \<^verbatim>\<open>TEST(AngleStyle, plain)\<close> after the null check of the instance.\<close>

definition plain_steps :: "string \<Rightarrow> TestConfig \<Rightarrow> LAMMPS \<Rightarrow> step list" where
  "plain_steps folder cfg lmp =
     (let nlocal = atom_nlocal (at_phase lmp Init_newton_on);
          epsilon = epsilon cfg;
          f_ref = init_forces cfg;
          f_run = run_forces cfg
      in
        [EXPECT_THAT (prefix ''LAMMPS ('' (init_output lmp)),
         EXPECT_THAT (sublist ''Loop time'' (init_output lmp)),
         ASSERT_EQ Natoms_nlocal (atom_natoms (at_phase lmp Init_newton_on)) nlocal,
         ASSERT_EQ Forces_size (nlocal + 1) (int (length f_ref))]
        @ forces_loop Init_newton_on (at_phase lmp Init_newton_on) f_ref nlocal epsilon
        @ stress_block Init_newton_on (at_phase lmp Init_newton_on) (init_stress cfg) epsilon
        @ [energy_check Init_newton_on (at_phase lmp Init_newton_on) (init_energy cfg) epsilon]
        @ map DO run_lammps
        @ [ASSERT_EQ Forces_size (nlocal + 1) (int (length f_run))]
        @ forces_loop Run_newton_on (at_phase lmp Run_newton_on) f_run nlocal (10 * epsilon)
        @ stress_block Run_newton_on (at_phase lmp Run_newton_on) (run_stress cfg) epsilon
        @ [energy_check Run_newton_on (at_phase lmp Run_newton_on) (run_energy cfg) epsilon,
           sum_check Run_newton_on (at_phase lmp Run_newton_on) epsilon]
        @ map DO (cleanup_lammps cfg)
        @ init_again plain_args folder cfg lmp
        @ forces_loop Init_newton_off (at_phase lmp Init_newton_off) f_ref nlocal epsilon
        @ stress_block Init_newton_off (at_phase lmp Init_newton_off) (init_stress cfg)
            (2 * epsilon)
        @ [energy_check Init_newton_off (at_phase lmp Init_newton_off) (init_energy cfg) epsilon]
        @ map DO run_lammps
        @ forces_loop Run_newton_off (at_phase lmp Run_newton_off) f_run nlocal (10 * epsilon)
        @ stress_block Run_newton_off (at_phase lmp Run_newton_off) (run_stress cfg) epsilon
        @ [energy_check Run_newton_off (at_phase lmp Run_newton_off) (run_energy cfg) epsilon,
           sum_check Run_newton_off (at_phase lmp Run_newton_off) epsilon]
        @ map DO (restart_lammps cfg lmp)
        @ [ASSERT_EQ Forces_size (nlocal + 1) (int (length f_ref))]
        @ forces_loop Restart (at_phase lmp Restart) f_ref nlocal epsilon
        @ stress_block Restart (at_phase lmp Restart) (init_stress cfg) epsilon
        @ [energy_check Restart (at_phase lmp Restart) (init_energy cfg) epsilon]
        @ map DO (data_lammps folder cfg)
        @ [ASSERT_EQ Forces_size (nlocal + 1) (int (length f_ref))]
        @ forces_loop Data (at_phase lmp Data) f_ref nlocal epsilon
        @ stress_block Data (at_phase lmp Data) (init_stress cfg) epsilon
        @ [energy_check Data (at_phase lmp Data) (init_energy cfg) epsilon]
        @ map DO (cleanup_lammps cfg))"

text \<open>
  The body of \<^verbatim>\<open>TEST(AngleStyle, omp)\<close> after the null check of the instance. The
  local \<^verbatim>\<open>epsilon\<close> is five times the configured one.
\<close>

definition omp_steps :: "string \<Rightarrow> TestConfig \<Rightarrow> LAMMPS \<Rightarrow> step list" where
  "omp_steps folder cfg lmp =
     (let nlocal = atom_nlocal (at_phase lmp Init_newton_on);
          epsilon = 5 * epsilon cfg;
          f_ref = init_forces cfg;
          f_run = run_forces cfg
      in
        [EXPECT_THAT (prefix ''LAMMPS ('' (init_output lmp)),
         EXPECT_THAT (sublist ''Loop time'' (init_output lmp)),
         ASSERT_EQ Natoms_nlocal (atom_natoms (at_phase lmp Init_newton_on)) nlocal]
        @ forces_loop Init_newton_on (at_phase lmp Init_newton_on) f_ref nlocal epsilon
        @ stress_block Init_newton_on (at_phase lmp Init_newton_on) (init_stress cfg)
            (10 * epsilon)
        @ [energy_check Init_newton_on (at_phase lmp Init_newton_on) (init_energy cfg) epsilon]
        @ map DO run_lammps
        @ [ASSERT_EQ Forces_size (nlocal + 1) (int (length f_run))]
        @ forces_loop Run_newton_on (at_phase lmp Run_newton_on) f_run nlocal (10 * epsilon)
        @ stress_block Run_newton_on (at_phase lmp Run_newton_on) (run_stress cfg)
            (10 * epsilon)
        @ [energy_check Run_newton_on (at_phase lmp Run_newton_on) (run_energy cfg) epsilon]
        @ (if take 6 (angle_style cfg) \<noteq> ''hybrid''
           then [sum_check Run_newton_on (at_phase lmp Run_newton_on) epsilon] else [])
        @ map DO (cleanup_lammps cfg)
        @ init_again omp_args folder cfg lmp
        @ forces_loop Init_newton_off (at_phase lmp Init_newton_off) f_ref nlocal epsilon
        @ stress_block Init_newton_off (at_phase lmp Init_newton_off) (init_stress cfg)
            (10 * epsilon)
        @ [energy_check Init_newton_off (at_phase lmp Init_newton_off) (init_energy cfg) epsilon]
        @ map DO run_lammps
        @ forces_loop Run_newton_off (at_phase lmp Run_newton_off) f_run nlocal (10 * epsilon)
        @ stress_block Run_newton_off (at_phase lmp Run_newton_off) (run_stress cfg)
            (10 * epsilon)
        @ [energy_check Run_newton_off (at_phase lmp Run_newton_off) (run_energy cfg) epsilon]
        @ (if take 6 (angle_style cfg) \<noteq> ''hybrid''
           then [sum_check Run_newton_off (at_phase lmp Run_newton_off) epsilon] else [])
        @ map DO (cleanup_lammps cfg))"

section \<open>Running a test body\<close>

text \<open>
  A failed \<^verbatim>\<open>ASSERT_EQ\<close> returns from the test body at once; a failed expectation
  does not. \<open>performed\<close> is the part of a body that is executed (the failing
  assertion included), \<open>final\<close> says how the body ends.
\<close>

datatype status = Completed | Fatal assertion | Undefined_behaviour

fun performed :: "step list \<Rightarrow> step list" where
  "performed [] = []"
| "performed (ASSERT_EQ a m n # ss) = ASSERT_EQ a m n # (if m = n then performed ss else [])"
| "performed (UNDEFINED # ss) = []"
| "performed (s # ss) = s # performed ss"

fun final :: "step list \<Rightarrow> status" where
  "final [] = Completed"
| "final (ASSERT_EQ a m n # ss) = (if m = n then final ss else Fatal a)"
| "final (UNDEFINED # ss) = Undefined_behaviour"
| "final (s # ss) = final ss"

fun fp_checks :: "step list \<Rightarrow> fp_check list" where
  "fp_checks [] = []"
| "fp_checks (EXPECT_FP c # ss) = c # fp_checks ss"
| "fp_checks (s # ss) = fp_checks ss"

fun commands :: "action list \<Rightarrow> action list" where
  "commands [] = []"
| "commands (One c # as) = One c # commands as"
| "commands (File c # as) = File c # commands as"
| "commands (a # as) = commands as"

text \<open>The comparisons of one statistics block of a test body.\<close>

definition block :: "phase \<Rightarrow> quantity \<Rightarrow> step list \<Rightarrow> fp_check list" where
  "block ph q ss = filter (\<lambda>c. chk_phase c = ph \<and> chk_quantity c = q) (fp_checks ss)"

datatype outcome = Skipped "action list" | Ran "step list" status

definition TEST_AngleStyle_plain :: "string \<Rightarrow> TestConfig \<Rightarrow> LAMMPS \<Rightarrow> outcome" where
  "TEST_AngleStyle_plain folder cfg lmp =
     (case init_lammps plain_args folder cfg lmp True of
        (acts, ok) \<Rightarrow>
          if \<not> ok then Skipped acts
          else let ss = map DO acts @ plain_steps folder cfg lmp
               in Ran (performed ss) (final ss))"

definition TEST_AngleStyle_omp :: "string \<Rightarrow> TestConfig \<Rightarrow> LAMMPS \<Rightarrow> outcome" where
  "TEST_AngleStyle_omp folder cfg lmp =
     (if \<not> is_installed_pkg lmp ''USER-OMP'' then Skipped []
      else case init_lammps omp_args folder cfg lmp True of
        (acts, ok) \<Rightarrow>
          if \<not> ok then Skipped acts
          else let ss = map DO acts @ omp_steps folder cfg lmp
               in Ran (performed ss) (final ss))"

fun expectation_holds :: "step \<Rightarrow> bool" where
  "expectation_holds (EXPECT_THAT b) = b"
| "expectation_holds (EXPECT_FP c) = accepted c"
| "expectation_holds s = True"

text \<open>A test passes when its body runs to the end and every expectation holds.\<close>

fun test_passed :: "outcome \<Rightarrow> bool" where
  "test_passed (Skipped acts) = False"
| "test_passed (Ran p st) = (st = Completed \<and> list_all expectation_holds p)"

fun checks_of :: "outcome \<Rightarrow> fp_check list" where
  "checks_of (Skipped acts) = []"
| "checks_of (Ran p st) = fp_checks p"

text \<open>
  The two parallelism modes, and the local variable \<^verbatim>\<open>epsilon\<close> of each test (the
  base tolerance of the mode).
\<close>

datatype mode = Serial | Threaded

fun base_tolerance :: "mode \<Rightarrow> TestConfig \<Rightarrow> real" where
  "base_tolerance Serial cfg = epsilon cfg"
| "base_tolerance Threaded cfg = 5 * epsilon cfg"

fun mode_steps :: "mode \<Rightarrow> string \<Rightarrow> TestConfig \<Rightarrow> LAMMPS \<Rightarrow> step list" where
  "mode_steps Serial folder cfg lmp = plain_steps folder cfg lmp"
| "mode_steps Threaded folder cfg lmp = omp_steps folder cfg lmp"

fun mode_test :: "mode \<Rightarrow> string \<Rightarrow> TestConfig \<Rightarrow> LAMMPS \<Rightarrow> outcome" where
  "mode_test Serial folder cfg lmp = TEST_AngleStyle_plain folder cfg lmp"
| "mode_test Threaded folder cfg lmp = TEST_AngleStyle_omp folder cfg lmp"

section \<open>Concrete scenarios\<close>

text \<open>
  A scenario with one atom, used to run the tests on concrete inputs. The engine
  knows the styles \<^verbatim>\<open>atom full\<close>, \<^verbatim>\<open>angle harmonic\<close> and
  \<^verbatim>\<open>angle harmonic/omp\<close>. A snapshot is given by the value of every virial component
  and the energy.
\<close>

definition zero_stress :: stress_t where
  "zero_stress = \<lparr>xx = 0, yy = 0, zz = 0, xy = 0, xz = 0, yz = 0\<rparr>"

definition example_cfg :: TestConfig where
  "example_cfg =
     \<lparr>basename = ''angle-harmonic'',
      prerequisites = [(''atom'', ''full''), (''angle'', ''harmonic'')],
      epsilon = 1 / 10 ^ 7,
      pre_commands = [''variable units index real''],
      post_commands = [''angle_modify special no''],
      input_file = ''in.fourmol'',
      angle_style = ''harmonic'',
      angle_coeff = [''1 75.0 110.1''],
      init_energy = 12345678901234 / 10 ^ 12,
      run_energy = 12345678901234 / 10 ^ 12,
      init_stress = zero_stress,
      run_stress = zero_stress,
      init_forces = [\<lparr>coord_x = 0, coord_y = 0, coord_z = 0\<rparr>,
                     \<lparr>coord_x = 1, coord_y = 0, coord_z = 0\<rparr>],
      run_forces = [\<lparr>coord_x = 0, coord_y = 0, coord_z = 0\<rparr>,
                    \<lparr>coord_x = 1, coord_y = 0, coord_z = 0\<rparr>]\<rparr>"

definition example_snapshot :: "real \<Rightarrow> real \<Rightarrow> snapshot" where
  "example_snapshot v e =
     \<lparr>atom_natoms = 1, atom_nlocal = 1,
      atom_f = (\<lambda>i d. if d = 0 then 1 else 0),
      atom_tag = (\<lambda>i. 1),
      angle_virial = (\<lambda>k. v),
      angle_energy = e, compute_sum = e\<rparr>"

definition good_snapshot :: snapshot where
  "good_snapshot = example_snapshot 0 (12345678001234 / 10 ^ 12)"

definition example_lmp :: "(phase \<Rightarrow> snapshot) \<Rightarrow> LAMMPS" where
  "example_lmp obs =
     \<lparr>has_style = (\<lambda>c n. List.member [(''atom'', ''full''), (''angle'', ''harmonic''),
                                         (''angle'', ''harmonic/omp'')] (c, n)),
      is_installed_pkg = (\<lambda>p. p = ''USER-OMP''),
      suffix_enable = False, suffix = [],
      init_output = ''LAMMPS (Loop time'',
      restart_angle = True, angle_writedata = True,
      at_phase = obs\<rparr>"

text \<open>The same engine started with \<^verbatim>\<open>-sf omp\<close>.\<close>

definition example_lmp_omp :: "(phase \<Rightarrow> snapshot) \<Rightarrow> LAMMPS" where
  "example_lmp_omp obs = (example_lmp obs)\<lparr>suffix_enable := True, suffix := ''omp''\<rparr>"

text \<open>The initial energy with newton on is off by about \<open>1.01e-4\<close>.\<close>

definition energy_off_lmp :: LAMMPS where
  "energy_off_lmp =
     example_lmp (\<lambda>ph. if ph = Init_newton_on
                        then example_snapshot 0 (12345779901234 / 10 ^ 12)
                        else good_snapshot)"




text \<open>A scenario that needs an angle style the engine does not have.\<close>

definition unmet_cfg :: TestConfig where
  "unmet_cfg = example_cfg\<lparr>prerequisites := [(''atom'', ''full''), (''angle'', ''table'')]\<rparr>"

text \<open>A reference file with one force line too many in \<^verbatim>\<open>init_forces\<close>.\<close>

definition long_forces_cfg :: TestConfig where
  "long_forces_cfg =
     example_cfg\<lparr>init_forces := [\<lparr>coord_x = 0, coord_y = 0, coord_z = 0\<rparr>,
                                  \<lparr>coord_x = 1, coord_y = 0, coord_z = 0\<rparr>,
                                  \<lparr>coord_x = 7, coord_y = 7, coord_z = 7\<rparr>]\<rparr>"

text \<open>A snapshot without an angle style, of a style that cannot write its data.\<close>

definition bare_restart_lmp :: LAMMPS where
  "bare_restart_lmp =
     (example_lmp (\<lambda>ph. good_snapshot))\<lparr>restart_angle := False, angle_writedata := False\<rparr>"

section \<open>Basic facts about steps and traces\<close>

lemma fp_checks_append: "fp_checks (ss @ ts) = fp_checks ss @ fp_checks ts"
  by (induction ss rule: fp_checks.induct) simp_all

lemma fp_checks_DO: "fp_checks (map DO acts) = []"
  by (induction acts) simp_all

lemma block_append: "block ph q (ss @ ts) = block ph q ss @ block ph q ts"
  by (simp add: block_def fp_checks_append)

lemma block_DO: "block ph q (map DO acts) = []"
  by (simp add: block_def fp_checks_DO)


lemma performed_DO: "performed (map DO acts @ ss) = map DO acts @ performed ss"
  by (induction acts) simp_all

lemma final_DO: "final (map DO acts @ ss) = final ss"
  by (induction acts) simp_all

lemma performed_only_DO: "performed (map DO acts) = map DO acts"
  using performed_DO [of acts "[]"] by simp

lemma final_only_DO: "final (map DO acts) = Completed"
  using final_DO [of acts "[]"] by simp

lemma holds_DO: "list_all expectation_holds (map DO acts)"
  by (induction acts) simp_all

lemma fp_checks_concat: "fp_checks (concat xss) = concat (map fp_checks xss)"
  by (induction xss) (simp_all add: fp_checks_append)

lemma forces_loop_labels:
  "list_all (\<lambda>c. chk_phase c = ph \<and> chk_quantity c = Forces \<and> chk_eps c = tol)
     (fp_checks (forces_loop ph s f_ref nlocal tol))"
  unfolding forces_loop_def fp_checks_concat
  by (induction "[0..<nat nlocal]" arbitrary: nlocal)
     (auto simp: expect_force_def list_all_iff split: option.splits)


lemma block_forces_loop:
  "block ph q (forces_loop ph' s f_ref nlocal tol) =
     (if ph = ph' \<and> q = Forces then fp_checks (forces_loop ph' s f_ref nlocal tol) else [])"
  using forces_loop_labels [of ph' tol s f_ref nlocal]
  by (auto simp: block_def list_all_iff filter_empty_conv intro: filter_True)

lemma block_stress_block:
  "block ph q (stress_block ph' s ref tol) =
     (if ph = ph' \<and> q = Stress then fp_checks (stress_block ph' s ref tol) else [])"
  by (simp add: block_def stress_block_def)

lemma block_init_again: "block ph q (init_again args folder cfg lmp) = []"
  by (simp add: init_again_def block_def fp_checks_append fp_checks_DO split: prod.splits)

lemma block_Nil: "block ph q [] = []"
  by (simp add: block_def)

lemma block_Cons:
  "block ph q (EXPECT_FP c # ss) =
     (if chk_phase c = ph \<and> chk_quantity c = q then c # block ph q ss else block ph q ss)"
  "block ph q (DO a # ss) = block ph q ss"
  "block ph q (EXPECT_THAT b # ss) = block ph q ss"
  "block ph q (ASSERT_EQ l m n # ss) = block ph q ss"
  "block ph q (UNDEFINED # ss) = block ph q ss"
  by (simp_all add: block_def)

lemmas block_simps = block_append block_DO block_forces_loop block_stress_block
  block_init_again block_Nil block_Cons energy_check_def sum_check_def

lemma hybrid_prefix: "(take 6 s = ''hybrid'') = prefix ''hybrid'' s"
proof
  assume "take 6 s = ''hybrid''"
  then have "prefix (take 6 s) s \<Longrightarrow> prefix ''hybrid'' s" by simp
  then show "prefix ''hybrid'' s" by (simp add: take_is_prefix)
next
  assume "prefix ''hybrid'' s"
  then obtain t where "s = ''hybrid'' @ t" by (auto elim: prefixE)
  then show "take 6 s = ''hybrid''" by simp
qed

lemma one_each_map: "one_each pre cmds trace = trace @ map (\<lambda>c. One (pre @ c)) cmds"
  unfolding one_each_def by (induction cmds arbitrary: trace) simp_all

lemma nfail_mono:
  "n \<le> fold (\<lambda>p nfail. if \<not> has_style lmp (fst p) (checked_style lmp p)
                          then nfail + 1 else nfail) ps (n::nat)"
proof (induction ps arbitrary: n)
  case Nil
  show ?case by simp
next
  case (Cons p ps)
  have "n \<le> (if \<not> has_style lmp (fst p) (checked_style lmp p) then n + 1 else n)"
    by simp
  also have "\<dots> \<le> fold (\<lambda>p nfail. if \<not> has_style lmp (fst p) (checked_style lmp p)
                          then nfail + 1 else nfail) ps
                  (if \<not> has_style lmp (fst p) (checked_style lmp p) then n + 1 else n)"
    by (rule Cons.IH)
  finally show ?case by simp
qed

lemma nfail_positive:
  assumes "p \<in> set ps" and "\<not> has_style lmp (fst p) (checked_style lmp p)"
  shows "0 < count_nfail lmp ps"
proof -
  have "n < fold (\<lambda>p nfail. if \<not> has_style lmp (fst p) (checked_style lmp p)
                          then nfail + 1 else nfail) ps n" for n :: nat
    using assms
  proof (induction ps arbitrary: n)
    case Nil
    then show ?case by simp
  next
    case (Cons a ps)
    show ?case
    proof (cases "a = p")
      case True
      have "n < n + 1" by simp
      also have "n + 1 \<le> fold (\<lambda>p nfail. if \<not> has_style lmp (fst p) (checked_style lmp p)
                          then nfail + 1 else nfail) ps (n + 1)"
        by (rule nfail_mono)
      finally show ?thesis using True Cons.prems by simp
    next
      case False
      then have "p \<in> set ps" using Cons.prems by simp
      then have ih: "m < fold (\<lambda>p nfail. if \<not> has_style lmp (fst p) (checked_style lmp p)
                          then nfail + 1 else nfail) ps m" for m :: nat
        using Cons.IH Cons.prems(2) by simp
      show ?thesis using ih [of n] ih [of "n + 1"] by auto
    qed
  qed
  then show ?thesis by (simp add: count_nfail_def)
qed

text \<open>
  A test performs a prefix of its body; a run that completes performs all of it. So the
  comparisons of a run are those of the body, up to the point where the run stops.
\<close>

lemma performed_prefix: "prefix (performed ss) ss"
  by (induction ss rule: performed.induct) simp_all

lemma performed_completed: "final ss = Completed \<Longrightarrow> performed ss = ss"
  by (induction ss rule: performed.induct) (simp_all split: if_splits)

lemma fp_checks_prefix: "prefix ss ts \<Longrightarrow> prefix (fp_checks ss) (fp_checks ts)"
  by (auto elim!: prefixE simp: fp_checks_append)

lemma performed_checks_prefix:
  "prefix (checks_of (mode_test m folder cfg lmp)) (fp_checks (mode_steps m folder cfg lmp))"
proof -
  have "prefix (fp_checks (performed (map DO acts @ ss))) (fp_checks ss)" for acts ss
    by (simp add: performed_DO fp_checks_append fp_checks_DO fp_checks_prefix performed_prefix)
  then show ?thesis
    by (cases m)
       (simp_all add: TEST_AngleStyle_plain_def TEST_AngleStyle_omp_def Let_def
          split: prod.splits)
qed

lemma completed_checks:
  assumes "mode_test m folder cfg lmp = Ran p Completed"
  shows "fp_checks p = fp_checks (mode_steps m folder cfg lmp)"
proof -
  have "final (map DO acts @ ss) = Completed \<Longrightarrow>
        fp_checks (performed (map DO acts @ ss)) = fp_checks ss" for acts ss
    by (simp add: performed_completed fp_checks_append fp_checks_DO)
  then show ?thesis
    using assms
    by (cases m)
       (auto simp: TEST_AngleStyle_plain_def TEST_AngleStyle_omp_def Let_def
          split: prod.splits if_splits)
qed

lemma commands_cleanup: "commands (cleanup_lammps cfg) = []"
  by (simp add: cleanup_lammps_def)


lemmas run_example_simps =
  TEST_AngleStyle_plain_def TEST_AngleStyle_omp_def init_lammps_def count_nfail_def
  checked_style_def example_cfg_def example_lmp_def example_lmp_omp_def Let_def
  plain_steps_def omp_steps_def performed_DO performed_only_DO final_DO final_only_DO
  fp_checks_append fp_checks_DO forces_loop_def
  stress_block_def expect_force_def vec_at_def energy_check_def sum_check_def
  init_again_def violations_def accepted_def EXPECT_FP_LE_WITH_EPS_def
  example_snapshot_def good_snapshot_def zero_stress_def sublist_Cons_right holds_DO

section \<open>The value comparison and its example\<close>

text \<open>
  Claim C1. The comparison accepts a pair of a live and an expected value exactly
  when \<open>\<bar>live - expected\<bar> \<le> tol * max 1 \<bar>expected\<bar>\<close>. With \<open>epsilon = 1e-7\<close> and
  \<open>init_energy = 1.2345678901234e+01\<close> it accepts the live value
  \<open>1.2345678001234e+01\<close> and rejects \<open>1.2345779901234e+01\<close>; the serial test of the
  example scenario on an engine whose initial energy is the rejected value reports
  exactly one violation, the comparison of that energy.
\<close>

theorem C1_comparator:
  "(EXPECT_FP_LE_WITH_EPS live expected tol
      = (\<bar>live - expected\<bar> \<le> tol * max 1 \<bar>expected\<bar>))
   \<and> EXPECT_FP_LE_WITH_EPS (12345678001234 / 10 ^ 12) (init_energy example_cfg)
         (epsilon example_cfg)
   \<and> \<not> EXPECT_FP_LE_WITH_EPS (12345779901234 / 10 ^ 12) (init_energy example_cfg)
         (epsilon example_cfg)
   \<and> epsilon example_cfg = 1 / 10 ^ 7
   \<and> init_energy example_cfg = 12345678901234 / 10 ^ 12
   \<and> violations (checks_of (TEST_AngleStyle_plain folder example_cfg energy_off_lmp))
       = [Fp_check Init_newton_on Energy (12345779901234 / 10 ^ 12)
            (12345678901234 / 10 ^ 12) (1 / 10 ^ 7)]"
proof -
  have "violations (checks_of (TEST_AngleStyle_plain folder example_cfg energy_off_lmp))
       = [Fp_check Init_newton_on Energy (12345779901234 / 10 ^ 12)
            (12345678901234 / 10 ^ 12) (1 / 10 ^ 7)]"
    by (simp add: TEST_AngleStyle_plain_def init_lammps_def count_nfail_def
        checked_style_def example_cfg_def energy_off_lmp_def example_lmp_def Let_def
        plain_steps_def performed_DO performed_only_DO fp_checks_append fp_checks_DO forces_loop_def
        stress_block_def expect_force_def vec_at_def energy_check_def sum_check_def
        init_again_def violations_def accepted_def EXPECT_FP_LE_WITH_EPS_def
        example_snapshot_def good_snapshot_def zero_stress_def)
  then show ?thesis
    by (simp add: EXPECT_FP_LE_WITH_EPS_def example_cfg_def)
qed

section \<open>The restart path\<close>

text \<open>
  Claim C5. \<^verbatim>\<open>restart_lammps\<close> clears the engine and reads the restart file; it
  issues the \<^verbatim>\<open>angle_style\<close> command exactly when the restored instance has no angle
  style, and the \<^verbatim>\<open>angle_coeff\<close> commands exactly when the style name begins with
  \<^verbatim>\<open>hybrid\<close> or the style does not write its coefficients to data files; in every
  case the post commands and \<^verbatim>\<open>run 0 post no\<close> follow.
\<close>

theorem C5_restart_reapplies:
  "restart_lammps cfg lmp =
     [One ''clear'', One (''read_restart '' @ basename cfg @ ''.restart'')]
     @ (if restart_angle lmp then [] else [One (''angle_style '' @ angle_style cfg)])
     @ (if prefix ''hybrid'' (angle_style cfg) \<or> \<not> angle_writedata lmp
        then map (\<lambda>c. One (''angle_coeff '' @ c)) (angle_coeff cfg) else [])
     @ map One (post_commands cfg)
     @ [One ''run 0 post no'']"
  by (simp add: restart_lammps_def Let_def one_each_map hybrid_prefix)

theorem C5_witness:
  "restart_lammps example_cfg bare_restart_lmp =
     [One ''clear'', One ''read_restart angle-harmonic.restart'',
      One ''angle_style harmonic'', One ''angle_coeff 1 75.0 110.1'',
      One ''angle_modify special no'', One ''run 0 post no'']"
  using C5_restart_reapplies [of example_cfg bare_restart_lmp]
  by (simp add: example_cfg_def bare_restart_lmp_def example_lmp_def)

section \<open>Unmet prerequisites\<close>

text \<open>
  Claim C7. When some prerequisite of the scenario is a style the engine does not
  have, \<^verbatim>\<open>init_lammps\<close> returns the null instance after creating and deleting the
  engine, without having issued any command, and the test of either mode is skipped.
  The name looked up for a prerequisite of category \<^verbatim>\<open>angle\<close> is the style name
  followed by \<^verbatim>\<open>/\<close> and the suffix when the instance runs with a suffix (the threaded
  variant); every other name is looked up as it is.
\<close>

theorem C7_unmet_prerequisite_skips:
  assumes "(c, n) \<in> set (prerequisites cfg)"
    and "\<not> has_style lmp c (checked_style lmp (c, n))"
  shows "init_lammps args folder cfg lmp newton = (New_LAMMPS args # cleanup_lammps cfg, False)
    \<and> commands (fst (init_lammps args folder cfg lmp newton)) = []
    \<and> (\<exists>acts. mode_test m folder cfg lmp = Skipped acts \<and> commands acts = [])
    \<and> checked_style lmp (c', n') =
        (if c' = ''angle'' \<and> suffix_enable lmp then n' @ ''/'' @ suffix lmp else n')"
proof -
  have pos: "0 < count_nfail lmp (prerequisites cfg)"
    using nfail_positive [of "(c, n)" "prerequisites cfg" lmp] assms by simp
  then have init: "init_lammps a folder cfg lmp b = (New_LAMMPS a # cleanup_lammps cfg, False)"
    for a b
    by (simp add: init_lammps_def Let_def)
  have "\<exists>acts. mode_test m folder cfg lmp = Skipped acts \<and> commands acts = []"
    by (cases m)
       (simp_all add: TEST_AngleStyle_plain_def TEST_AngleStyle_omp_def init commands_cleanup)
  then show ?thesis
    by (simp add: init commands_cleanup checked_style_def Let_def)
qed

theorem C7_witness:
  "(''angle'', ''table'') \<in> set (prerequisites unmet_cfg)
   \<and> \<not> has_style (example_lmp_omp (\<lambda>ph. good_snapshot)) ''angle''
         (checked_style (example_lmp_omp (\<lambda>ph. good_snapshot)) (''angle'', ''table''))
   \<and> checked_style (example_lmp_omp (\<lambda>ph. good_snapshot)) (''angle'', ''table'') = ''table/omp''
   \<and> init_lammps omp_args ''.'' unmet_cfg (example_lmp_omp (\<lambda>ph. good_snapshot)) True
       = (New_LAMMPS omp_args # cleanup_lammps unmet_cfg, False)
   \<and> mode_test Threaded ''.'' unmet_cfg (example_lmp_omp (\<lambda>ph. good_snapshot))
       = Skipped (New_LAMMPS omp_args # cleanup_lammps unmet_cfg)"
proof -
  have h1: "(''angle'', ''table'') \<in> set (prerequisites unmet_cfg)"
    by (simp add: unmet_cfg_def)
  have h2: "\<not> has_style (example_lmp_omp (\<lambda>ph. good_snapshot)) ''angle''
         (checked_style (example_lmp_omp (\<lambda>ph. good_snapshot)) (''angle'', ''table''))"
    by (simp add: example_lmp_omp_def example_lmp_def checked_style_def)
  have h3: "is_installed_pkg (example_lmp_omp (\<lambda>ph. good_snapshot)) ''USER-OMP''"
    by (simp add: example_lmp_omp_def example_lmp_def)
  show ?thesis
    using h1 h2 h3
      C7_unmet_prerequisite_skips [OF h1 h2, of omp_args "''.''" True Threaded "''angle''" "''table''"]
    by (auto simp: TEST_AngleStyle_omp_def example_lmp_omp_def example_lmp_def)
qed


section \<open>Tolerances of the comparison blocks\<close>

text \<open>
  The theorems of this section read off, for a statistics block of a test body, the
  comparisons it consists of: the live value, the reference value and the tolerance of
  each. The tests perform a prefix of their body, so these are the comparisons of every
  run that reaches the block.
\<close>





text \<open>
  Claim C6. After the short run the energy of the style is compared with the scalar of
  the compute \<^verbatim>\<open>sum\<close> at the base tolerance of the mode: always in the serial mode, and
  in the threaded mode exactly when the style name does not begin with \<^verbatim>\<open>hybrid\<close>.
  No other phase has such a comparison.
\<close>

theorem C6_energy_cross_check:
  "block Run_newton_on Energy_sum (mode_steps m folder cfg lmp)
     = (if m = Threaded \<and> prefix ''hybrid'' (angle_style cfg) then []
        else [Fp_check Run_newton_on Energy_sum (angle_energy (at_phase lmp Run_newton_on))
                (compute_sum (at_phase lmp Run_newton_on)) (base_tolerance m cfg)])
   \<and> block Run_newton_off Energy_sum (mode_steps m folder cfg lmp)
     = (if m = Threaded \<and> prefix ''hybrid'' (angle_style cfg) then []
        else [Fp_check Run_newton_off Energy_sum (angle_energy (at_phase lmp Run_newton_off))
                (compute_sum (at_phase lmp Run_newton_off)) (base_tolerance m cfg)])
   \<and> block Init_newton_on Energy_sum (mode_steps m folder cfg lmp) = []
   \<and> block Init_newton_off Energy_sum (mode_steps m folder cfg lmp) = []
   \<and> block Restart Energy_sum (mode_steps m folder cfg lmp) = []
   \<and> block Data Energy_sum (mode_steps m folder cfg lmp) = []"
proof (cases m)
  case Serial
  then show ?thesis by (simp add: plain_steps_def Let_def block_simps)
next
  case Threaded
  then show ?thesis by (simp add: omp_steps_def Let_def block_simps hybrid_prefix)
qed




section \<open>Structural checks\<close>



text \<open>
  The serial test asserts the size of \<^verbatim>\<open>init_forces\<close> before its first loop over
  the atoms: a run of it that performs any comparison has a reference with
  \<^verbatim>\<open>natoms + 1\<close> force entries.
\<close>

lemma plain_asserts_init_forces_size:
  assumes "checks_of (TEST_AngleStyle_plain folder cfg lmp) \<noteq> []"
  shows "atom_natoms (at_phase lmp Init_newton_on) = atom_nlocal (at_phase lmp Init_newton_on)
    \<and> int (length (init_forces cfg)) = atom_natoms (at_phase lmp Init_newton_on) + 1"
  using assms
  by (simp add: TEST_AngleStyle_plain_def plain_steps_def Let_def performed_DO
      fp_checks_append fp_checks_DO split: prod.splits if_splits)

text \<open>
  Claim C8. The threaded test has no such assertion before its first loop (it asserts
  the size of \<^verbatim>\<open>run_forces\<close> only). With one atom in the engine and three entries in
  \<^verbatim>\<open>init_forces\<close>, the threaded test compares the forces of the atom and passes,
  while the serial test stops at the size assertion before any comparison.
\<close>

theorem C8_omp_compares_without_size_assertion:
  "test_passed (TEST_AngleStyle_omp ''.'' long_forces_cfg (example_lmp_omp (\<lambda>ph. good_snapshot)))
   \<and> block Init_newton_on Forces
        (performed (omp_steps ''.'' long_forces_cfg (example_lmp_omp (\<lambda>ph. good_snapshot))))
      = [Fp_check Init_newton_on Forces 1 1 (5 / 10 ^ 7),
         Fp_check Init_newton_on Forces 0 0 (5 / 10 ^ 7),
         Fp_check Init_newton_on Forces 0 0 (5 / 10 ^ 7)]
   \<and> length (init_forces long_forces_cfg) = 3
   \<and> atom_natoms (at_phase (example_lmp_omp (\<lambda>ph. good_snapshot)) Init_newton_on) + 1 = 2
   \<and> final (plain_steps ''.'' long_forces_cfg (example_lmp (\<lambda>ph. good_snapshot)))
      = Fatal Forces_size
   \<and> checks_of (TEST_AngleStyle_plain ''.'' long_forces_cfg (example_lmp (\<lambda>ph. good_snapshot)))
      = []"
proof -
  have "test_passed (TEST_AngleStyle_omp ''.'' long_forces_cfg (example_lmp_omp (\<lambda>ph. good_snapshot)))"
    by (simp add: run_example_simps long_forces_cfg_def)
  moreover have "block Init_newton_on Forces
        (performed (omp_steps ''.'' long_forces_cfg (example_lmp_omp (\<lambda>ph. good_snapshot))))
      = [Fp_check Init_newton_on Forces 1 1 (5 / 10 ^ 7),
         Fp_check Init_newton_on Forces 0 0 (5 / 10 ^ 7),
         Fp_check Init_newton_on Forces 0 0 (5 / 10 ^ 7)]"
    by (simp add: run_example_simps long_forces_cfg_def block_def)
  moreover have "final (plain_steps ''.'' long_forces_cfg (example_lmp (\<lambda>ph. good_snapshot)))
      = Fatal Forces_size"
    by (simp add: run_example_simps long_forces_cfg_def)
  moreover have "checks_of (TEST_AngleStyle_plain ''.'' long_forces_cfg (example_lmp (\<lambda>ph. good_snapshot)))
      = []"
    by (simp add: run_example_simps long_forces_cfg_def)
  ultimately show ?thesis
    by (simp add: long_forces_cfg_def example_lmp_omp_def example_lmp_def good_snapshot_def
        example_snapshot_def)
qed

end
